theory Spec2Isabelle
  imports Main
begin

section \<open>The Jsonnet preview extension (src/client/extension.ts)\<close>

text \<open>
  The extension is glue between the editor host, the external \<^verbatim>\<open>jsonnet\<close> process and two
  library calls. The embedding keeps every function of the source under its own name.
  What the source does not contain (the host API, \<^verbatim>\<open>child_process\<close>, \<^verbatim>\<open>JSON\<close>,
  \<^verbatim>\<open>js-yaml\<close>) is a field of the record \<open>host\<close>, so every statement is about all
  behaviours of those collaborators. A thrown JavaScript exception is the \<open>Inl\<close> of a sum,
  a \<^verbatim>\<open>try/catch\<close> is \<open>try_catch\<close>, the module variable \<^verbatim>\<open>jsonnet.executable\<close> and the calls
  made to the host are the fields of the state record.
\<close>

subsection \<open>Data of the host API\<close>

text \<open>An \<^verbatim>\<open>Error\<close> object, as thrown by \<^verbatim>\<open>execSync\<close>, \<^verbatim>\<open>JSON.parse\<close> and \<^verbatim>\<open>safeDump\<close>.\<close>

datatype Error = Error (message: string)

text \<open>\<^verbatim>\<open>vs.Uri\<close>: its five components. \<^verbatim>\<open>with\<close> is the record update.\<close>

record Uri =
  scheme :: string
  authority :: string
  path :: string
  query :: string
  fragment :: string

record TextDocument =
  uri :: Uri
  fileName :: string
  languageId :: string

text \<open>
  Modelled from the spec: the host's enumeration \<^verbatim>\<open>vs.ViewColumn\<close>, whose declaration is
  not part of the repository. The source names \<^verbatim>\<open>One\<close>, \<^verbatim>\<open>Two\<close> and \<^verbatim>\<open>Three\<close>; the spec
  speaks of three target panes.
\<close>

datatype ViewColumn = One | Two | Three

fun columnNumber :: "ViewColumn \<Rightarrow> nat" where
  "columnNumber One = 1"
| "columnNumber Two = 2"
| "columnNumber Three = 3"

text \<open>An editor; \<^verbatim>\<open>viewColumn\<close> may be \<^verbatim>\<open>undefined\<close> (\<open>None\<close>).\<close>

record TextEditor =
  document :: TextDocument
  viewColumn :: "ViewColumn option"

text \<open>
  \<^verbatim>\<open>vs.workspace.getConfiguration('jsonnet')\<close>: the three options the source reads. An unset
  option is \<open>None\<close>. The object under \<^verbatim>\<open>extStrs\<close> is the list of its properties in the
  order in which \<^verbatim>\<open>Object.keys\<close> enumerates them.
\<close>

record WorkspaceConfiguration =
  cfg_executablePath :: "string option"
  cfg_extStrs :: "(string \<times> string) list option"
  cfg_outputFormat :: string

text \<open>
  The collaborators outside the repository. \<open>'j\<close> is the type of parsed JSON values.
  \<^verbatim>\<open>execSync\<close> throws when the command exits non-zero; \<^verbatim>\<open>openTextDocument\<close> and
  \<^verbatim>\<open>executeCommand\<close> return promises, which settle to a value or to a rejection.
\<close>

record 'j host =
  os_type :: string
  execSync :: "string \<Rightarrow> Error + string"
  JSON_parse :: "string \<Rightarrow> Error + 'j"
  JSON_stringify :: "'j \<Rightarrow> nat \<Rightarrow> string"
  safeDump :: "'j \<Rightarrow> Error + string"
  Uri_toString :: "Uri \<Rightarrow> string"
  Uri_parse :: "string \<Rightarrow> Uri"
  openTextDocument :: "Uri \<Rightarrow> Error + TextDocument"
  executeCommand :: "string \<Rightarrow> Uri \<Rightarrow> ViewColumn option \<Rightarrow> string \<Rightarrow> string option"

text \<open>What the extension does to the host, in the order in which it does it.\<close>

datatype effect =
  ShowErrorMessage string
| ExecuteCommand string Uri "ViewColumn option" string
| Fire Uri

fun is_dispatch :: "effect \<Rightarrow> bool" where
  "is_dispatch (ExecuteCommand c u v t) = True"
| "is_dispatch e = False"

fun is_alert :: "effect \<Rightarrow> bool" where
  "is_alert (ShowErrorMessage m) = True"
| "is_alert e = False"

text \<open>
  The state of the extension: the module variable \<^verbatim>\<open>jsonnet.executable\<close> and the trace of
  calls made to the host.
\<close>

record ext_state =
  executable :: string
  effects :: "effect list"

definition initial_state :: ext_state where
  "initial_state = \<lparr>executable = ''jsonnet'', effects = []\<rparr>"

definition emit :: "effect \<Rightarrow> ext_state \<Rightarrow> ext_state" where
  "emit e st = st\<lparr>effects := effects st @ [e]\<rparr>"

text \<open>\<^verbatim>\<open>try { body } catch (e) { handler }\<close>\<close>

definition try_catch :: "(Error + 'a) \<Rightarrow> (Error \<Rightarrow> Error + 'a) \<Rightarrow> Error + 'a" where
  "try_catch body handler = (case body of Inl e \<Rightarrow> handler e | Inr v \<Rightarrow> Inr v)"

text \<open>\<^verbatim>\<open>Array.prototype.join\<close> on an array of strings.\<close>

fun join :: "string \<Rightarrow> string list \<Rightarrow> string" where
  "join sep [] = []"
| "join sep [x] = x"
| "join sep (x # y # ys) = x @ sep @ join sep (y # ys)"

text \<open>Reading a property of an object; a missing one reads \<^verbatim>\<open>undefined\<close>.\<close>

definition property :: "(string \<times> string) list \<Rightarrow> string \<Rightarrow> string" where
  "property obj key = (case map_of obj key of None \<Rightarrow> ''undefined'' | Some v \<Rightarrow> v)"

subsection \<open>namespace workspace\<close>

definition extStrs :: "WorkspaceConfiguration \<Rightarrow> string" where
  \<open>extStrs cfg =
     (case cfg_extStrs cfg of
        None \<Rightarrow> []
      | Some extStrsObj \<Rightarrow>
          join '' ''
            (map (\<lambda>key. ''--ext-str '' @ key @ ''="'' @ property extStrsObj key @ ''"'')
               (map fst extStrsObj)))\<close>

definition outputFormat :: "WorkspaceConfiguration \<Rightarrow> string" where
  "outputFormat cfg = cfg_outputFormat cfg"

subsection \<open>namespace alert\<close>

definition noActiveWindow :: "ext_state \<Rightarrow> ext_state" where
  "noActiveWindow =
     emit (ShowErrorMessage ''Can't open Jsonnet preview because there is no active window'')"

definition documentNotJsonnet :: "string \<Rightarrow> ext_state \<Rightarrow> ext_state" where
  "documentNotJsonnet lang =
     emit (ShowErrorMessage
       (''Can't generate Jsonnet document preview for document with language id ''
          @ [CHR 0x27] @ lang @ [CHR 0x27]))"

definition couldNotRenderJsonnet :: "string \<Rightarrow> ext_state \<Rightarrow> ext_state" where
  "couldNotRenderJsonnet reason =
     emit (ShowErrorMessage (''Error: Could not render Jsonnet; '' @ reason))"

definition jsonnetCommandNotOnPath :: "ext_state \<Rightarrow> ext_state" where
  "jsonnetCommandNotOnPath =
     emit (ShowErrorMessage ''Error: could not find 'jsonnet' command on path'')"

definition jsonnetCommandIsNull :: "ext_state \<Rightarrow> ext_state" where
  "jsonnetCommandIsNull =
     emit (ShowErrorMessage
       ''Error: 'jsonnet.executablePath' must be set in vscode settings'')"

subsection \<open>namespace workspace: configure\<close>

text \<open>
  The functions return what the source returns (or the exception that escapes) and the
  state they leave.
\<close>

definition configureUnix ::
  "'j host \<Rightarrow> WorkspaceConfiguration \<Rightarrow> ext_state \<Rightarrow> (Error + bool) \<times> ext_state" where
  "configureUnix h config st =
     (case cfg_executablePath config of
        Some p \<Rightarrow> (Inr True, st\<lparr>executable := p\<rparr>)
      | None \<Rightarrow>
          (case execSync h ''which jsonnet'' of
             Inl e \<Rightarrow> (Inr False, jsonnetCommandNotOnPath st)
           | Inr out \<Rightarrow> (Inr True, st)))"

definition configureWindows ::
  "WorkspaceConfiguration \<Rightarrow> ext_state \<Rightarrow> (Error + bool) \<times> ext_state" where
  "configureWindows config st =
     (case cfg_executablePath config of
        None \<Rightarrow> (Inr False, jsonnetCommandIsNull st)
      | Some p \<Rightarrow> (Inr True, st\<lparr>executable := p\<rparr>))"

definition configure ::
  "'j host \<Rightarrow> WorkspaceConfiguration \<Rightarrow> ext_state \<Rightarrow> (Error + bool) \<times> ext_state" where
  "configure h config st =
     (if os_type h = ''Windows_NT'' then configureWindows config st
      else configureUnix h config st)"

subsection \<open>namespace html\<close>

definition body :: "string \<Rightarrow> string" where
  "body b = ''<html><body>'' @ b @ ''</body></html>''"

definition codeLiteral :: "string \<Rightarrow> string" where
  "codeLiteral code = ''<pre><code>'' @ code @ ''</code></pre>''"

definition errorMessage :: "string \<Rightarrow> string" where
  "errorMessage m = ''<i><pre>'' @ m @ ''</pre></i>''"

definition prettyPrintObject :: "'j host \<Rightarrow> string \<Rightarrow> string \<Rightarrow> Error + string" where
  "prettyPrintObject h json fmt =
     (if fmt = ''yaml'' then
        (case JSON_parse h json of
           Inl e \<Rightarrow> Inl e
         | Inr v \<Rightarrow> (case safeDump h v of Inl e \<Rightarrow> Inl e | Inr y \<Rightarrow> Inr (codeLiteral y)))
      else
        (case JSON_parse h json of
           Inl e \<Rightarrow> Inl e
         | Inr v \<Rightarrow> Inr (codeLiteral (JSON_stringify h v 4))))"

subsection \<open>namespace jsonnet\<close>

definition PREVIEW_SCHEME :: string where
  "PREVIEW_SCHEME = ''jsonnet-preview''"

definition canonicalPreviewUri :: "'j host \<Rightarrow> Uri \<Rightarrow> Uri" where
  "canonicalPreviewUri h fileUri =
     fileUri\<lparr>scheme := PREVIEW_SCHEME,
             path := path fileUri @ ''.rendered'',
             query := Uri_toString h fileUri\<rparr>"

text \<open>The command line that \<^verbatim>\<open>renderDocument\<close> hands to \<^verbatim>\<open>execSync\<close>.\<close>

definition renderCommand :: "WorkspaceConfiguration \<Rightarrow> ext_state \<Rightarrow> TextDocument \<Rightarrow> string" where
  "renderCommand cfg st doc = executable st @ '' '' @ extStrs cfg @ '' '' @ fileName doc"

text \<open>
  \<open>cfg\<close> is the configuration that the host holds when the render runs: the source asks
  the host for it inside the function.
\<close>

definition renderDocument ::
  "'j host \<Rightarrow> WorkspaceConfiguration \<Rightarrow> ext_state \<Rightarrow> TextDocument \<Rightarrow> Error + string" where
  "renderDocument h cfg st doc =
     try_catch
       (let fmt = outputFormat cfg in
        case execSync h (renderCommand cfg st doc) of
          Inl e \<Rightarrow> Inl e
        | Inr jsonOutput \<Rightarrow>
            (case prettyPrintObject h jsonOutput fmt of
               Inl e \<Rightarrow> Inl e
             | Inr s \<Rightarrow> Inr (body s)))
       (\<lambda>e. Inr (body (errorMessage (message e))))"



definition update :: "Uri \<Rightarrow> ext_state \<Rightarrow> ext_state" where
  "update u = emit (Fire u)"

subsection \<open>namespace display\<close>

definition getViewColumn :: "TextEditor option \<Rightarrow> bool \<Rightarrow> ViewColumn option" where
  "getViewColumn active sideBySide =
     (case active of
        None \<Rightarrow> Some One
      | Some ed \<Rightarrow>
          if \<not> sideBySide then viewColumn ed
          else (case viewColumn ed of
                  Some One \<Rightarrow> Some Two
                | Some Two \<Rightarrow> Some Three
                | other \<Rightarrow> viewColumn ed))"

definition previewJsonnet ::
  "'j host \<Rightarrow> TextEditor option \<Rightarrow> bool \<Rightarrow> ext_state \<Rightarrow> ext_state" where
  "previewJsonnet h active sideBySide st =
     (case active of
        None \<Rightarrow> noActiveWindow st
      | Some editor \<Rightarrow>
          if languageId (document editor) \<noteq> ''jsonnet''
          then documentNotJsonnet (languageId (document editor)) st
          else
            (let target = canonicalPreviewUri h (uri (document editor));
                 column = getViewColumn active sideBySide;
                 st1 = emit (ExecuteCommand ''vscode.previewHtml'' target column
                               ''Jsonnet property preview'') st
             in case executeCommand h ''vscode.previewHtml'' target column
                       ''Jsonnet property preview'' of
                  None \<Rightarrow> st1
                | Some reason \<Rightarrow> couldNotRenderJsonnet reason st1))"

subsection \<open>activate\<close>

text \<open>The subscriber that \<^verbatim>\<open>activate\<close> registers with \<^verbatim>\<open>onDidSaveTextDocument\<close>.\<close>

definition onDidSaveTextDocument :: "'j host \<Rightarrow> TextDocument \<Rightarrow> ext_state \<Rightarrow> ext_state" where
  "onDidSaveTextDocument h doc st = update (canonicalPreviewUri h (uri doc)) st"

text \<open>
  \<^verbatim>\<open>activate\<close> configures the workspace, drops the result, and registers the provider, the
  commands and the subscriber with the host; only the first changes the state.
\<close>

definition activate :: "'j host \<Rightarrow> WorkspaceConfiguration \<Rightarrow> ext_state \<Rightarrow> ext_state" where
  "activate h cfg st = snd (configure h cfg st)"

subsection \<open>Stubs for concrete runs\<close>

text \<open>
  A host with a fixed compiler result, in the manner of the stubs of the spec's testable
  properties. Its JSON values are flat objects with string values; its \<^verbatim>\<open>JSON.parse\<close>
  knows one text.
\<close>

definition stub_parse :: "string \<Rightarrow> Error + (string \<times> string) list" where
  \<open>stub_parse s =
     (if s = ''{"a":"b"}'' then Inr [(''a'', ''b'')]
      else Inl (Error ''Unexpected token in JSON''))\<close>

definition stub_stringify :: "(string \<times> string) list \<Rightarrow> nat \<Rightarrow> string" where
  \<open>stub_stringify obj n =
     ''{'' @ [CHR 0x0A]
       @ join ('','' @ [CHR 0x0A])
           (map (\<lambda>(k, v). replicate n (CHR '' '') @ ''"'' @ k @ ''": "'' @ v @ ''"'') obj)
       @ [CHR 0x0A] @ ''}''\<close>

definition stub_dump :: "(string \<times> string) list \<Rightarrow> Error + string" where
  "stub_dump obj = Inr (concat (map (\<lambda>(k, v). k @ '': '' @ v @ [CHR 0x0A]) obj))"

definition file_a :: Uri where
  "file_a = \<lparr>scheme = ''file'', authority = [], path = ''/w/a.jsonnet'', query = [],
            fragment = []\<rparr>"

definition stub_toString :: "Uri \<Rightarrow> string" where
  "stub_toString u = scheme u @ ''://'' @ authority u @ path u"

definition stub_parse_uri :: "string \<Rightarrow> Uri" where
  "stub_parse_uri s =
     (if s = ''file:///w/a.jsonnet'' then file_a
      else \<lparr>scheme = [], authority = [], path = s, query = [], fragment = []\<rparr>)"

definition stub_host :: "string \<Rightarrow> (Error + string) \<Rightarrow> (string \<times> string) list host" where
  "stub_host os result =
     \<lparr>os_type = os,
      execSync = (\<lambda>cmd. result),
      JSON_parse = stub_parse,
      JSON_stringify = stub_stringify,
      safeDump = stub_dump,
      Uri_toString = stub_toString,
      Uri_parse = stub_parse_uri,
      openTextDocument = (\<lambda>u. Inr \<lparr>uri = u, fileName = path u, languageId = ''jsonnet''\<rparr>),
      executeCommand = (\<lambda>c u v t. None)\<rparr>"

definition doc_a :: TextDocument where
  "doc_a = \<lparr>uri = file_a, fileName = ''/w/a.jsonnet'', languageId = ''jsonnet''\<rparr>"

definition doc_md :: TextDocument where
  "doc_md = \<lparr>uri = file_a\<lparr>path := ''/w/notes.md''\<rparr>, fileName = ''/w/notes.md'',
             languageId = ''markdown''\<rparr>"

definition cfg_json :: WorkspaceConfiguration where
  "cfg_json = \<lparr>cfg_executablePath = None, cfg_extStrs = None, cfg_outputFormat = ''json''\<rparr>"

definition cfg_yaml :: WorkspaceConfiguration where
  "cfg_yaml = \<lparr>cfg_executablePath = None, cfg_extStrs = None, cfg_outputFormat = ''yaml''\<rparr>"

definition cfg_path_a :: WorkspaceConfiguration where
  "cfg_path_a = \<lparr>cfg_executablePath = Some ''/opt/a/jsonnet'', cfg_extStrs = None,
                 cfg_outputFormat = ''json''\<rparr>"

definition cfg_path_b :: WorkspaceConfiguration where
  "cfg_path_b = \<lparr>cfg_executablePath = Some ''/opt/b/jsonnet'', cfg_extStrs = None,
                 cfg_outputFormat = ''json''\<rparr>"


subsection \<open>The editor's Uri\<close>


















subsection \<open>Facts shared by the proofs\<close>

lemma renderDocument_exec_fail:
  "execSync h (renderCommand cfg st doc) = Inl e \<Longrightarrow>
   renderDocument h cfg st doc = Inr (body (errorMessage (message e)))"
  by (simp add: renderDocument_def try_catch_def)

lemma renderDocument_format_fail:
  "execSync h (renderCommand cfg st doc) = Inr out \<Longrightarrow>
   prettyPrintObject h out (outputFormat cfg) = Inl e \<Longrightarrow>
   renderDocument h cfg st doc = Inr (body (errorMessage (message e)))"
  by (simp add: renderDocument_def try_catch_def)

lemma renderDocument_success:
  "execSync h (renderCommand cfg st doc) = Inr out \<Longrightarrow>
   prettyPrintObject h out (outputFormat cfg) = Inr s \<Longrightarrow>
   renderDocument h cfg st doc = Inr (body s)"
  by (simp add: renderDocument_def try_catch_def)

lemma renderDocument_returns: "\<exists>s. renderDocument h cfg st doc = Inr s"
  by (simp add: renderDocument_def try_catch_def split: sum.splits)

lemma prettyPrintObject_parse_fail:
  "JSON_parse h out = Inl e \<Longrightarrow> prettyPrintObject h out fmt = Inl e"
  by (simp add: prettyPrintObject_def)

lemma property_of_binding:
  "distinct (map fst obj) \<Longrightarrow> (k, v) \<in> set obj \<Longrightarrow> property obj k = v"
  by (simp add: property_def)

lemma flags_of_bindings:
  assumes "distinct (map fst obj)"
  shows "map (\<lambda>key. f key (property obj key)) (map fst obj) = map (\<lambda>(k, v). f k v) obj"
proof -
  have "\<And>kv. kv \<in> set obj \<Longrightarrow> f (fst kv) (property obj (fst kv)) = (\<lambda>(k, v). f k v) kv"
    using assms by (auto simp: property_of_binding)
  then show ?thesis by (simp add: comp_def)
qed

lemmas stub_defs =
  stub_host_def stub_parse_def stub_stringify_def stub_dump_def stub_toString_def
  stub_parse_uri_def file_a_def doc_a_def doc_md_def cfg_json_def cfg_yaml_def
  cfg_path_a_def cfg_path_b_def initial_state_def

lemmas html_defs = body_def codeLiteral_def errorMessage_def

subsection \<open>The preview identity\<close>




subsection \<open>Rendering\<close>

text \<open>
  C2. For every document and every behaviour of the compiler invocation,
  \<^verbatim>\<open>renderDocument\<close> returns a string and lets no exception escape; when the compiler
  call throws, or the formatting of its output throws, the string is the body template
  around the error template around the message of the exception.
\<close>

theorem renderDocument_never_throws:
  "(\<exists>s. renderDocument h cfg st doc = Inr s) \<and>
   (execSync h (renderCommand cfg st doc) = Inl e \<longrightarrow>
      renderDocument h cfg st doc =
        Inr (''<html><body><i><pre>'' @ message e @ ''</pre></i></body></html>'')) \<and>
   (execSync h (renderCommand cfg st doc) = Inr out \<and>
    prettyPrintObject h out (outputFormat cfg) = Inl e \<longrightarrow>
      renderDocument h cfg st doc =
        Inr (''<html><body><i><pre>'' @ message e @ ''</pre></i></body></html>''))"
proof (intro conjI impI)
  show "\<exists>s. renderDocument h cfg st doc = Inr s"
    by (rule renderDocument_returns)
next
  assume "execSync h (renderCommand cfg st doc) = Inl e"
  then show "renderDocument h cfg st doc =
      Inr (''<html><body><i><pre>'' @ message e @ ''</pre></i></body></html>'')"
    by (simp add: renderDocument_exec_fail html_defs)
next
  assume "execSync h (renderCommand cfg st doc) = Inr out \<and>
    prettyPrintObject h out (outputFormat cfg) = Inl e"
  then show "renderDocument h cfg st doc =
      Inr (''<html><body><i><pre>'' @ message e @ ''</pre></i></body></html>'')"
    by (simp add: renderDocument_format_fail html_defs)
qed

theorem renderDocument_never_throws_witness:
  "execSync (stub_host ''Linux'' (Inl (Error ''boom''))) (renderCommand cfg_json initial_state doc_a)
     = Inl (Error ''boom'') \<and>
   renderDocument (stub_host ''Linux'' (Inl (Error ''boom''))) cfg_json initial_state doc_a
     = Inr ''<html><body><i><pre>boom</pre></i></body></html>''"
proof -
  have fails: "execSync (stub_host ''Linux'' (Inl (Error ''boom'')))
      (renderCommand cfg_json initial_state doc_a) = Inl (Error ''boom'')"
    by (simp add: stub_host_def)
  from renderDocument_never_throws
         [of "stub_host ''Linux'' (Inl (Error ''boom''))" cfg_json initial_state doc_a
             "Error ''boom''"]
       fails
  show ?thesis by simp
qed

text \<open>
  C4. When the compiler call succeeds and its output parses as JSON, the render with
  output format \<^verbatim>\<open>json\<close> is the body template around the pre/code template around the
  value serialised by \<^verbatim>\<open>JSON.stringify\<close> with indentation 4, and the render with output
  format \<^verbatim>\<open>yaml\<close> is the same two templates around the \<^verbatim>\<open>safeDump\<close> of the same value.
\<close>

theorem render_success_format:
  assumes "execSync h (renderCommand cfg st doc) = Inr out"
      and "JSON_parse h out = Inr v"
  shows "(cfg_outputFormat cfg = ''json'' \<longrightarrow>
            renderDocument h cfg st doc =
              Inr (''<html><body><pre><code>'' @ JSON_stringify h v 4
                     @ ''</code></pre></body></html>'')) \<and>
         (cfg_outputFormat cfg = ''yaml'' \<and> safeDump h v = Inr y \<longrightarrow>
            renderDocument h cfg st doc =
              Inr (''<html><body><pre><code>'' @ y @ ''</code></pre></body></html>''))"
proof (intro conjI impI)
  assume "cfg_outputFormat cfg = ''json''"
  with assms(2) have "prettyPrintObject h out (outputFormat cfg) =
      Inr (codeLiteral (JSON_stringify h v 4))"
    by (simp add: prettyPrintObject_def outputFormat_def)
  with assms(1) show "renderDocument h cfg st doc =
      Inr (''<html><body><pre><code>'' @ JSON_stringify h v 4 @ ''</code></pre></body></html>'')"
    by (simp add: renderDocument_success html_defs)
next
  assume "cfg_outputFormat cfg = ''yaml'' \<and> safeDump h v = Inr y"
  with assms(2) have "prettyPrintObject h out (outputFormat cfg) = Inr (codeLiteral y)"
    by (simp add: prettyPrintObject_def outputFormat_def)
  with assms(1) show "renderDocument h cfg st doc =
      Inr (''<html><body><pre><code>'' @ y @ ''</code></pre></body></html>'')"
    by (simp add: renderDocument_success html_defs)
qed

theorem render_success_format_witness:
  \<open>renderDocument (stub_host ''Linux'' (Inr ''{"a":"b"}'')) cfg_json initial_state doc_a =
     Inr (''<html><body><pre><code>{'' @ [CHR 0x0A] @ ''    "a": "b"'' @ [CHR 0x0A]
            @ ''}</code></pre></body></html>'') \<and>
   renderDocument (stub_host ''Linux'' (Inr ''{"a":"b"}'')) cfg_yaml initial_state doc_a =
     Inr (''<html><body><pre><code>a: b'' @ [CHR 0x0A] @ ''</code></pre></body></html>'')\<close>
proof -
  let ?h = \<open>stub_host ''Linux'' (Inr ''{"a":"b"}'')\<close>
  have ex: \<open>execSync ?h (renderCommand c initial_state doc_a) = Inr ''{"a":"b"}''\<close> for c
    by (simp add: stub_host_def)
  have pa: \<open>JSON_parse ?h ''{"a":"b"}'' = Inr [(''a'', ''b'')]\<close>
    by (simp add: stub_host_def stub_parse_def)
  have fj: "cfg_outputFormat cfg_json = ''json''" by (simp add: cfg_json_def)
  have fy: "cfg_outputFormat cfg_yaml = ''yaml'' \<and>
            safeDump ?h [(''a'', ''b'')] = Inr (''a: b'' @ [CHR 0x0A])"
    by (simp add: cfg_yaml_def stub_host_def stub_dump_def)
  have st: \<open>JSON_stringify ?h [(''a'', ''b'')] 4 =
              ''{'' @ [CHR 0x0A] @ ''    "a": "b"'' @ [CHR 0x0A] @ ''}''\<close>
    by (simp add: stub_host_def stub_stringify_def numeral_eq_Suc)
  from render_success_format [OF ex pa, of cfg_json "[]"] fj st
  have j: \<open>renderDocument ?h cfg_json initial_state doc_a =
     Inr (''<html><body><pre><code>{'' @ [CHR 0x0A] @ ''    "a": "b"'' @ [CHR 0x0A]
            @ ''}</code></pre></body></html>'')\<close>
    by simp
  from render_success_format [OF ex pa, of cfg_yaml "''a: b'' @ [CHR 0x0A]"] fy
  have y: \<open>renderDocument ?h cfg_yaml initial_state doc_a =
     Inr (''<html><body><pre><code>a: b'' @ [CHR 0x0A] @ ''</code></pre></body></html>'')\<close>
    by simp
  from j y show ?thesis by blast
qed

text \<open>
  C10. \<^verbatim>\<open>prettyPrintObject\<close> parses the compiler's output as JSON for every output
  format, \<^verbatim>\<open>yaml\<close> included: when the output is not valid JSON the parse error comes out
  of it whatever the format, and the render is the error document.
\<close>

theorem invalid_json_renders_error:
  assumes "execSync h (renderCommand cfg st doc) = Inr out"
      and "JSON_parse h out = Inl e"
  shows "prettyPrintObject h out ''yaml'' = Inl e \<and>
         prettyPrintObject h out fmt = Inl e \<and>
         renderDocument h cfg st doc =
           Inr (''<html><body><i><pre>'' @ message e @ ''</pre></i></body></html>'')"
proof -
  have pp: "prettyPrintObject h out f = Inl e" for f
    using assms(2) by (rule prettyPrintObject_parse_fail)
  from renderDocument_format_fail [OF assms(1) pp]
  have "renderDocument h cfg st doc = Inr (body (errorMessage (message e)))" .
  with pp show ?thesis by (simp add: html_defs)
qed

theorem invalid_json_renders_error_witness:
  \<open>cfg_outputFormat cfg_yaml = ''yaml'' \<and>
   execSync (stub_host ''Linux'' (Inr ''{"a":'')) (renderCommand cfg_yaml initial_state doc_a)
     = Inr ''{"a":'' \<and>
   JSON_parse (stub_host ''Linux'' (Inr ''{"a":'')) ''{"a":'' = Inl (Error ''Unexpected token in JSON'') \<and>
   renderDocument (stub_host ''Linux'' (Inr ''{"a":'')) cfg_yaml initial_state doc_a =
     Inr ''<html><body><i><pre>Unexpected token in JSON</pre></i></body></html>''\<close>
proof -
  let ?h = \<open>stub_host ''Linux'' (Inr ''{"a":'')\<close>
  have ex: \<open>execSync ?h (renderCommand cfg_yaml initial_state doc_a) = Inr ''{"a":''\<close>
    by (simp add: stub_host_def)
  have pa: \<open>JSON_parse ?h ''{"a":'' = Inl (Error ''Unexpected token in JSON'')\<close>
    by (simp add: stub_host_def stub_parse_def)
  have fy: "cfg_outputFormat cfg_yaml = ''yaml''" by (simp add: cfg_yaml_def)
  from invalid_json_renders_error [OF ex pa, of "''yaml''"] ex pa fy
  show ?thesis by simp
qed


subsection \<open>Where a render takes its configuration from\<close>

text \<open>
  C3, as stated, fails. The extension is activated while the host configuration names
  \<^verbatim>\<open>/opt/a/jsonnet\<close>; the configuration then changes to \<^verbatim>\<open>/opt/b/jsonnet\<close>. The next
  render still runs \<^verbatim>\<open>/opt/a/jsonnet\<close>, which is not the command that the configuration
  current at the render resolves to.
\<close>

theorem render_configuration_counterexample:
  "cfg_executablePath cfg_path_b = Some ''/opt/b/jsonnet'' \<and>
   renderCommand cfg_path_b
       (activate (stub_host ''Linux'' (Inr [])) cfg_path_a initial_state) doc_a
     = ''/opt/a/jsonnet  /w/a.jsonnet'' \<and>
   renderCommand cfg_path_b
       (activate (stub_host ''Linux'' (Inr [])) cfg_path_a initial_state) doc_a
     \<noteq> renderCommand cfg_path_b
       (activate (stub_host ''Linux'' (Inr [])) cfg_path_b initial_state) doc_a"
  by (simp add: renderCommand_def activate_def configure_def configureUnix_def extStrs_def
        stub_defs)

text \<open>
  C3, amended. For every render, the external string bindings and the output format are
  those of the host configuration current at that render. The compiler path is the module
  variable \<^verbatim>\<open>jsonnet.executable\<close>: after activation it holds the \<^verbatim>\<open>executablePath\<close> of
  the configuration that \<^verbatim>\<open>activate\<close> saw, or its previous value (initially
  \<^verbatim>\<open>jsonnet\<close>) when none was set, and a render reads it without consulting the current
  configuration.
\<close>

theorem render_configuration_sources:
  "renderCommand cfg (activate h cfg0 st0) doc =
     (case cfg_executablePath cfg0 of None \<Rightarrow> executable st0 | Some p \<Rightarrow> p)
       @ '' '' @ extStrs cfg @ '' '' @ fileName doc \<and>
   (execSync h (renderCommand cfg st doc) = Inr out \<longrightarrow>
      renderDocument h cfg st doc =
        (case prettyPrintObject h out (cfg_outputFormat cfg) of
           Inl e \<Rightarrow> Inr (body (errorMessage (message e)))
         | Inr s \<Rightarrow> Inr (body s)))"
proof (intro conjI impI)
  have "executable (activate h cfg0 st0) =
          (case cfg_executablePath cfg0 of None \<Rightarrow> executable st0 | Some p \<Rightarrow> p)"
    by (simp add: activate_def configure_def configureUnix_def configureWindows_def
          jsonnetCommandNotOnPath_def jsonnetCommandIsNull_def emit_def
          split: option.splits sum.splits)
  then show "renderCommand cfg (activate h cfg0 st0) doc =
     (case cfg_executablePath cfg0 of None \<Rightarrow> executable st0 | Some p \<Rightarrow> p)
       @ '' '' @ extStrs cfg @ '' '' @ fileName doc"
    by (simp add: renderCommand_def)
next
  assume ex: "execSync h (renderCommand cfg st doc) = Inr out"
  show "renderDocument h cfg st doc =
        (case prettyPrintObject h out (cfg_outputFormat cfg) of
           Inl e \<Rightarrow> Inr (body (errorMessage (message e)))
         | Inr s \<Rightarrow> Inr (body s))"
  proof (cases "prettyPrintObject h out (cfg_outputFormat cfg)")
    case (Inl e)
    with ex show ?thesis
      by (simp add: renderDocument_format_fail outputFormat_def)
  next
    case (Inr s)
    with ex show ?thesis
      by (simp add: renderDocument_success outputFormat_def)
  qed
qed

theorem render_configuration_sources_witness:
  \<open>renderCommand (cfg_yaml\<lparr>cfg_extStrs := Some [(''FOO'', ''bar'')]\<rparr>)
       (activate (stub_host ''Linux'' (Inr ''{"a":"b"}'')) cfg_path_a initial_state) doc_a
     = ''/opt/a/jsonnet --ext-str FOO="bar" /w/a.jsonnet'' \<and>
   renderDocument (stub_host ''Linux'' (Inr ''{"a":"b"}''))
       (cfg_yaml\<lparr>cfg_extStrs := Some [(''FOO'', ''bar'')]\<rparr>)
       (activate (stub_host ''Linux'' (Inr ''{"a":"b"}'')) cfg_path_a initial_state) doc_a
     = Inr (''<html><body><pre><code>a: b'' @ [CHR 0x0A] @ ''</code></pre></body></html>'')\<close>
proof -
  let ?h = \<open>stub_host ''Linux'' (Inr ''{"a":"b"}'')\<close>
  let ?cfg = \<open>cfg_yaml\<lparr>cfg_extStrs := Some [(''FOO'', ''bar'')]\<rparr>\<close>
  have ex: \<open>execSync ?h (renderCommand ?cfg (activate ?h cfg_path_a initial_state) doc_a)
              = Inr ''{"a":"b"}''\<close>
    by (simp add: stub_host_def)
  have pp: \<open>prettyPrintObject ?h ''{"a":"b"}'' (cfg_outputFormat ?cfg) =
              Inr (''<pre><code>a: b'' @ [CHR 0x0A] @ ''</code></pre>'')\<close>
    by (simp add: prettyPrintObject_def stub_defs codeLiteral_def)
  from render_configuration_sources
         [of ?cfg ?h cfg_path_a initial_state doc_a "activate ?h cfg_path_a initial_state"
             \<open>''{"a":"b"}''\<close>]
       ex pp
  show ?thesis
    by (simp add: extStrs_def property_def body_def stub_defs)
qed

subsection \<open>External string bindings\<close>

text \<open>
  C5. \<^verbatim>\<open>extStrs\<close> is empty when the option is unset; the mapping \<^verbatim>\<open>{FOO: "bar"}\<close> gives
  exactly \<^verbatim>\<open>--ext-str FOO="bar"\<close>; and for every mapping (an object has each key once)
  it is one flag with the quoted value per binding, in the order of the keys, joined by
  single spaces.
\<close>

theorem extStrs_fragment:
  \<open>(cfg_extStrs cfg = None \<longrightarrow> extStrs cfg = []) \<and>
   (cfg_extStrs cfg = Some [(''FOO'', ''bar'')] \<longrightarrow> extStrs cfg = ''--ext-str FOO="bar"'') \<and>
   (cfg_extStrs cfg = Some obj \<and> distinct (map fst obj) \<longrightarrow>
      extStrs cfg = join '' '' (map (\<lambda>(k, v). ''--ext-str '' @ k @ ''="'' @ v @ ''"'') obj))\<close>
proof (intro conjI impI)
  assume "cfg_extStrs cfg = None"
  then show "extStrs cfg = []" by (simp add: extStrs_def)
next
  assume \<open>cfg_extStrs cfg = Some [(''FOO'', ''bar'')]\<close>
  then show \<open>extStrs cfg = ''--ext-str FOO="bar"''\<close>
    by (simp add: extStrs_def property_def)
next
  assume a: "cfg_extStrs cfg = Some obj \<and> distinct (map fst obj)"
  then have d: "distinct (map fst obj)" by simp
  from a have \<open>extStrs cfg =
      join '' ''
        (map (\<lambda>key. ''--ext-str '' @ key @ ''="'' @ property obj key @ ''"'') (map fst obj))\<close>
    unfolding extStrs_def by simp
  also have \<open>map (\<lambda>key. ''--ext-str '' @ key @ ''="'' @ property obj key @ ''"'') (map fst obj)
      = map (\<lambda>(k, v). ''--ext-str '' @ k @ ''="'' @ v @ ''"'') obj\<close>
    by (rule flags_of_bindings [OF d])
  finally show \<open>extStrs cfg =
      join '' '' (map (\<lambda>(k, v). ''--ext-str '' @ k @ ''="'' @ v @ ''"'') obj)\<close> .
qed

theorem extStrs_fragment_witness:
  \<open>extStrs (cfg_json\<lparr>cfg_extStrs := None\<rparr>) = [] \<and>
   extStrs (cfg_json\<lparr>cfg_extStrs := Some [(''FOO'', ''bar'')]\<rparr>) = ''--ext-str FOO="bar"'' \<and>
   distinct (map fst [(''A'', ''1''), (''B'', ''x y'')]) \<and>
   extStrs (cfg_json\<lparr>cfg_extStrs := Some [(''A'', ''1''), (''B'', ''x y'')]\<rparr>)
     = ''--ext-str A="1" --ext-str B="x y"''\<close>
proof -
  have d: "distinct (map fst [(''A'', ''1''), (''B'', ''x y'')])" by simp
  from extStrs_fragment [of \<open>cfg_json\<lparr>cfg_extStrs := None\<rparr>\<close> "[]"]
  have 1: \<open>extStrs (cfg_json\<lparr>cfg_extStrs := None\<rparr>) = []\<close> by simp
  from extStrs_fragment [of \<open>cfg_json\<lparr>cfg_extStrs := Some [(''FOO'', ''bar'')]\<rparr>\<close> "[]"]
  have 2: \<open>extStrs (cfg_json\<lparr>cfg_extStrs := Some [(''FOO'', ''bar'')]\<rparr>)
             = ''--ext-str FOO="bar"''\<close> by simp
  from extStrs_fragment
         [of \<open>cfg_json\<lparr>cfg_extStrs := Some [(''A'', ''1''), (''B'', ''x y'')]\<rparr>\<close>
             "[(''A'', ''1''), (''B'', ''x y'')]"] d
  have 3: \<open>extStrs (cfg_json\<lparr>cfg_extStrs := Some [(''A'', ''1''), (''B'', ''x y'')]\<rparr>)
     = ''--ext-str A="1" --ext-str B="x y"''\<close> by simp
  from 1 2 3 d show ?thesis by blast
qed

subsection \<open>The target column\<close>

text \<open>
  C6. For every column of the active editor, the target of preview-to-side is the column
  one to the right, capped at column three: from the third column the target is the
  third column itself. Without \<^verbatim>\<open>sideBySide\<close> the target is the active editor's column.
\<close>

theorem getViewColumn_target:
  "(viewColumn ed = Some c \<longrightarrow>
      map_option columnNumber (getViewColumn (Some ed) True)
        = Some (min (columnNumber c + 1) 3)) \<and>
   (viewColumn ed = Some Three \<longrightarrow> getViewColumn (Some ed) True = Some Three) \<and>
   getViewColumn (Some ed) False = viewColumn ed"
  by (cases c) (auto simp: getViewColumn_def)

theorem getViewColumn_target_witness:
  "getViewColumn (Some \<lparr>document = doc_a, viewColumn = Some One\<rparr>) True = Some Two \<and>
   getViewColumn (Some \<lparr>document = doc_a, viewColumn = Some Two\<rparr>) True = Some Three \<and>
   getViewColumn (Some \<lparr>document = doc_a, viewColumn = Some Three\<rparr>) True = Some Three \<and>
   getViewColumn (Some \<lparr>document = doc_a, viewColumn = Some Three\<rparr>) False = Some Three"
proof -
  from getViewColumn_target [of "\<lparr>document = doc_a, viewColumn = Some One\<rparr>" One]
  have 1: "getViewColumn (Some \<lparr>document = doc_a, viewColumn = Some One\<rparr>) True = Some Two"
    by (cases "getViewColumn (Some \<lparr>document = doc_a, viewColumn = Some One\<rparr>) True")
       (auto elim: columnNumber.elims)
  from getViewColumn_target [of "\<lparr>document = doc_a, viewColumn = Some Two\<rparr>" Two]
  have 2: "getViewColumn (Some \<lparr>document = doc_a, viewColumn = Some Two\<rparr>) True = Some Three"
    by (cases "getViewColumn (Some \<lparr>document = doc_a, viewColumn = Some Two\<rparr>) True")
       (auto elim: columnNumber.elims)
  from getViewColumn_target [of "\<lparr>document = doc_a, viewColumn = Some Three\<rparr>" Three]
  have 3: "getViewColumn (Some \<lparr>document = doc_a, viewColumn = Some Three\<rparr>) True = Some Three"
    and 4: "getViewColumn (Some \<lparr>document = doc_a, viewColumn = Some Three\<rparr>) False = Some Three"
    by simp_all
  from 1 2 3 4 show ?thesis by blast
qed


subsection \<open>Configuring the compiler path\<close>

text \<open>
  C7. \<^verbatim>\<open>configure\<close> always returns a boolean and throws nothing. Off Windows it takes an
  explicit path when there is one and otherwise probes with \<^verbatim>\<open>which jsonnet\<close>: a
  successful probe returns true and changes nothing, a failed one shows a message and
  returns false. On Windows an explicit path is taken, and its absence shows a message
  and returns false.
\<close>

theorem configure_degrades:
  "(\<exists>b. fst (configure h config st) = Inr b) \<and>
   (os_type h \<noteq> ''Windows_NT'' \<and> cfg_executablePath config = Some p \<longrightarrow>
      configure h config st = (Inr True, st\<lparr>executable := p\<rparr>)) \<and>
   (os_type h \<noteq> ''Windows_NT'' \<and> cfg_executablePath config = None \<and>
    execSync h ''which jsonnet'' = Inr out \<longrightarrow>
      configure h config st = (Inr True, st)) \<and>
   (os_type h \<noteq> ''Windows_NT'' \<and> cfg_executablePath config = None \<and>
    execSync h ''which jsonnet'' = Inl e \<longrightarrow>
      configure h config st =
        (Inr False,
         st\<lparr>effects := effects st
               @ [ShowErrorMessage ''Error: could not find 'jsonnet' command on path'']\<rparr>)) \<and>
   (os_type h = ''Windows_NT'' \<and> cfg_executablePath config = Some p \<longrightarrow>
      configure h config st = (Inr True, st\<lparr>executable := p\<rparr>)) \<and>
   (os_type h = ''Windows_NT'' \<and> cfg_executablePath config = None \<longrightarrow>
      configure h config st =
        (Inr False,
         st\<lparr>effects := effects st
               @ [ShowErrorMessage
                    ''Error: 'jsonnet.executablePath' must be set in vscode settings'']\<rparr>))"
proof (intro conjI impI)
  show "\<exists>b. fst (configure h config st) = Inr b"
    by (auto simp: configure_def configureUnix_def configureWindows_def
          split: option.splits sum.splits)
qed (simp_all add: configure_def configureUnix_def configureWindows_def
       jsonnetCommandNotOnPath_def jsonnetCommandIsNull_def emit_def)

theorem configure_degrades_witness:
  "configure (stub_host ''Linux'' (Inr [])) cfg_path_a initial_state
     = (Inr True, \<lparr>executable = ''/opt/a/jsonnet'', effects = []\<rparr>) \<and>
   configure (stub_host ''Linux'' (Inr ''/usr/bin/jsonnet'')) cfg_json initial_state
     = (Inr True, \<lparr>executable = ''jsonnet'', effects = []\<rparr>) \<and>
   configure (stub_host ''Linux'' (Inl (Error ''Command failed: which jsonnet''))) cfg_json
       initial_state
     = (Inr False,
        \<lparr>executable = ''jsonnet'',
         effects = [ShowErrorMessage ''Error: could not find 'jsonnet' command on path'']\<rparr>) \<and>
   configure (stub_host ''Windows_NT'' (Inr [])) cfg_path_a initial_state
     = (Inr True, \<lparr>executable = ''/opt/a/jsonnet'', effects = []\<rparr>) \<and>
   configure (stub_host ''Windows_NT'' (Inr [])) cfg_json initial_state
     = (Inr False,
        \<lparr>executable = ''jsonnet'',
         effects = [ShowErrorMessage
                      ''Error: 'jsonnet.executablePath' must be set in vscode settings'']\<rparr>)"
proof -
  from configure_degrades
         [of "stub_host ''Linux'' (Inr [])" cfg_path_a initial_state "''/opt/a/jsonnet''"]
  have 1: "configure (stub_host ''Linux'' (Inr [])) cfg_path_a initial_state
     = (Inr True, \<lparr>executable = ''/opt/a/jsonnet'', effects = []\<rparr>)"
    by (simp add: stub_defs)
  from configure_degrades
         [of "stub_host ''Linux'' (Inr ''/usr/bin/jsonnet'')" cfg_json initial_state
             _ "''/usr/bin/jsonnet''"]
  have 2: "configure (stub_host ''Linux'' (Inr ''/usr/bin/jsonnet'')) cfg_json initial_state
     = (Inr True, \<lparr>executable = ''jsonnet'', effects = []\<rparr>)"
    by (simp add: stub_defs)
  from configure_degrades
         [of "stub_host ''Linux'' (Inl (Error ''Command failed: which jsonnet''))" cfg_json
             initial_state _ _ "Error ''Command failed: which jsonnet''"]
  have 3: "configure (stub_host ''Linux'' (Inl (Error ''Command failed: which jsonnet'')))
       cfg_json initial_state
     = (Inr False,
        \<lparr>executable = ''jsonnet'',
         effects = [ShowErrorMessage ''Error: could not find 'jsonnet' command on path'']\<rparr>)"
    by (simp add: stub_defs)
  from configure_degrades
         [of "stub_host ''Windows_NT'' (Inr [])" cfg_path_a initial_state "''/opt/a/jsonnet''"]
  have 4: "configure (stub_host ''Windows_NT'' (Inr [])) cfg_path_a initial_state
     = (Inr True, \<lparr>executable = ''/opt/a/jsonnet'', effects = []\<rparr>)"
    by (simp add: stub_defs)
  from configure_degrades [of "stub_host ''Windows_NT'' (Inr [])" cfg_json initial_state]
  have 5: "configure (stub_host ''Windows_NT'' (Inr [])) cfg_json initial_state
     = (Inr False,
        \<lparr>executable = ''jsonnet'',
         effects = [ShowErrorMessage
                      ''Error: 'jsonnet.executablePath' must be set in vscode settings'']\<rparr>)"
    by (simp add: stub_defs)
  from 1 2 3 4 5 show ?thesis by blast
qed

subsection \<open>The preview commands\<close>

text \<open>
  C8. With no active editor, or an active editor whose document is not of language
  \<^verbatim>\<open>jsonnet\<close>, \<^verbatim>\<open>previewJsonnet\<close> shows one message and returns: it dispatches no
  command, and nothing of the host (the compiler included) is consulted. This holds for
  both commands (\<^verbatim>\<open>sideBySide\<close> true and false).
\<close>

theorem previewJsonnet_aborts:
  "(active = None \<longrightarrow>
      previewJsonnet h active sideBySide st =
        st\<lparr>effects := effects st
              @ [ShowErrorMessage
                   ''Can't open Jsonnet preview because there is no active window'']\<rparr>) \<and>
   (active = Some ed \<and> languageId (document ed) \<noteq> ''jsonnet'' \<longrightarrow>
      previewJsonnet h active sideBySide st =
        st\<lparr>effects := effects st
              @ [ShowErrorMessage
                   (''Can't generate Jsonnet document preview for document with language id ''
                      @ [CHR 0x27] @ languageId (document ed) @ [CHR 0x27])]\<rparr>) \<and>
   (active = None \<or> (active = Some ed \<and> languageId (document ed) \<noteq> ''jsonnet'') \<longrightarrow>
      filter is_dispatch (effects (previewJsonnet h active sideBySide st))
        = filter is_dispatch (effects st) \<and>
      length (filter is_alert (effects (previewJsonnet h active sideBySide st)))
        = Suc (length (filter is_alert (effects st))) \<and>
      previewJsonnet h' active sideBySide st = previewJsonnet h active sideBySide st)"
  by (auto simp: previewJsonnet_def noActiveWindow_def documentNotJsonnet_def emit_def)

theorem previewJsonnet_aborts_witness:
  "previewJsonnet (stub_host ''Linux'' (Inr [])) None False initial_state =
     \<lparr>executable = ''jsonnet'',
      effects = [ShowErrorMessage
                   ''Can't open Jsonnet preview because there is no active window'']\<rparr> \<and>
   languageId (document \<lparr>document = doc_md, viewColumn = Some One\<rparr>) \<noteq> ''jsonnet'' \<and>
   previewJsonnet (stub_host ''Linux'' (Inr []))
       (Some \<lparr>document = doc_md, viewColumn = Some One\<rparr>) True initial_state =
     \<lparr>executable = ''jsonnet'',
      effects = [ShowErrorMessage
                   (''Can't generate Jsonnet document preview for document with language id ''
                      @ [CHR 0x27] @ ''markdown'' @ [CHR 0x27])]\<rparr>"
proof -
  have md: "languageId (document \<lparr>document = doc_md, viewColumn = Some One\<rparr>) \<noteq> ''jsonnet''"
    by (simp add: doc_md_def)
  from previewJsonnet_aborts
         [of None "stub_host ''Linux'' (Inr [])" False initial_state _
             "stub_host ''Linux'' (Inr [])"]
  have 1: "previewJsonnet (stub_host ''Linux'' (Inr [])) None False initial_state =
     \<lparr>executable = ''jsonnet'',
      effects = [ShowErrorMessage
                   ''Can't open Jsonnet preview because there is no active window'']\<rparr>"
    by (simp add: initial_state_def)
  from previewJsonnet_aborts
         [of "Some \<lparr>document = doc_md, viewColumn = Some One\<rparr>" "stub_host ''Linux'' (Inr [])"
             True initial_state "\<lparr>document = doc_md, viewColumn = Some One\<rparr>"
             "stub_host ''Linux'' (Inr [])"] md
  have 2: "previewJsonnet (stub_host ''Linux'' (Inr []))
       (Some \<lparr>document = doc_md, viewColumn = Some One\<rparr>) True initial_state =
     \<lparr>executable = ''jsonnet'',
      effects = [ShowErrorMessage
                   (''Can't generate Jsonnet document preview for document with language id ''
                      @ [CHR 0x27] @ ''markdown'' @ [CHR 0x27])]\<rparr>"
    by (simp add: initial_state_def doc_md_def)
  from 1 2 md show ?thesis by blast
qed

subsection \<open>The save subscriber\<close>

text \<open>
  C9. For every saved document, whatever its language or scheme, the subscriber fires one
  change notification, for the preview identity of the document's URI; a saved Markdown
  file fires one too.
\<close>

theorem save_fires_change:
  "onDidSaveTextDocument h doc st =
     st\<lparr>effects := effects st @ [Fire (canonicalPreviewUri h (uri doc))]\<rparr> \<and>
   onDidSaveTextDocument (stub_host ''Linux'' (Inr [])) doc_md initial_state =
     \<lparr>executable = ''jsonnet'',
      effects = [Fire \<lparr>scheme = ''jsonnet-preview'', authority = [],
                       path = ''/w/notes.md.rendered'', query = ''file:///w/notes.md'',
                       fragment = []\<rparr>]\<rparr>"
  by (simp add: onDidSaveTextDocument_def update_def emit_def canonicalPreviewUri_def
        PREVIEW_SCHEME_def stub_defs)

end
